theory Spec2Isabelle
  imports Main
begin

section \<open>JavaScript values\<close>

text \<open>
  An optional property of a JavaScript object (a string or \<open>undefined\<close>) is a
  \<open>string option\<close>; \<open>JSON.stringify\<close> drops an \<open>undefined\<close> property, so
  \<open>None\<close> stands for undefined and for absent alike. \<open>truthy\<close> is the test an
  \<open>if (v)\<close> or \<open>!v\<close> makes on such a value: undefined and the empty string are
  falsy.
\<close>

definition truthy :: "string option \<Rightarrow> bool" where
  "truthy v = (case v of None \<Rightarrow> False | Some s \<Rightarrow> s \<noteq> [])"

text \<open>What a template literal prints for a possibly undefined string.\<close>

definition template :: "string option \<Rightarrow> string" where
  "template v = (case v of None \<Rightarrow> ''undefined'' | Some s \<Rightarrow> s)"

text \<open>Everything a \<open>throw\<close> of the server side can carry.\<close>

datatype error = StorageFailure | InvalidAccessToken | InvalidRefreshToken | TypeError

section \<open>Token codec (server/utils/jwt.js)\<close>

text \<open>
  The codec is the jsonwebtoken library; the repository only calls it. A token is kept
  symbolic: the key it was signed with and the claims it carries. \<open>Opaque\<close> is any
  other string a client may present. \<open>jwt_sign\<close> stamps \<open>iat\<close> with the clock in
  whole seconds and \<open>exp\<close> with \<open>iat\<close> plus the lifetime; \<open>jwt_verify\<close> refuses a
  token signed with another key, one whose \<open>exp\<close> the clock (whole seconds) has
  reached, and one with another issuer or audience. The clock is in milliseconds, as
  \<open>Date.now()\<close> gives it.
\<close>

record claims =
  c_userId :: "string option"
  c_email :: "string option"
  c_iat :: nat
  c_exp :: nat
  c_iss :: string
  c_aud :: string

datatype token = Jwt string claims | Opaque string

record payload =
  p_userId :: "string option"
  p_email :: "string option"

definition jwt_sign :: "payload \<Rightarrow> string \<Rightarrow> nat \<Rightarrow> string \<Rightarrow> string \<Rightarrow> nat \<Rightarrow> token" where
  "jwt_sign p secret ttl issuer audience now =
     Jwt secret \<lparr>c_userId = p_userId p, c_email = p_email p,
                 c_iat = now div 1000, c_exp = now div 1000 + ttl,
                 c_iss = issuer, c_aud = audience\<rparr>"

definition jwt_verify :: "token \<Rightarrow> string \<Rightarrow> string \<Rightarrow> string \<Rightarrow> nat \<Rightarrow> claims option" where
  "jwt_verify t secret issuer audience now =
     (case t of
        Opaque s \<Rightarrow> None
      | Jwt k c \<Rightarrow>
          if k \<noteq> secret then None
          else if c_exp c \<le> now div 1000 then None
          else if c_iss c \<noteq> issuer then None
          else if c_aud c \<noteq> audience then None
          else Some c)"

text \<open>The two keys, at the defaults the source falls back to.\<close>

definition ACCESS_TOKEN_SECRET :: string where
  "ACCESS_TOKEN_SECRET = ''access-token-secret''"

definition REFRESH_TOKEN_SECRET :: string where
  "REFRESH_TOKEN_SECRET = ''refresh-token-secret''"

definition generateAccessToken :: "payload \<Rightarrow> nat \<Rightarrow> token" where
  "generateAccessToken p now =
     jwt_sign p ACCESS_TOKEN_SECRET (15 * 60) ''secure-auth-app'' ''secure-auth-client'' now"

definition generateRefreshToken :: "payload \<Rightarrow> nat \<Rightarrow> token" where
  "generateRefreshToken p now =
     jwt_sign p REFRESH_TOKEN_SECRET (7 * 24 * 60 * 60) ''secure-auth-app'' ''secure-auth-client'' now"

definition verifyAccessToken :: "token \<Rightarrow> nat \<Rightarrow> error + claims" where
  "verifyAccessToken t now =
     (case jwt_verify t ACCESS_TOKEN_SECRET ''secure-auth-app'' ''secure-auth-client'' now of
        None \<Rightarrow> Inl InvalidAccessToken
      | Some c \<Rightarrow> Inr c)"

definition verifyRefreshToken :: "token \<Rightarrow> nat \<Rightarrow> error + claims" where
  "verifyRefreshToken t now =
     (case jwt_verify t REFRESH_TOKEN_SECRET ''secure-auth-app'' ''secure-auth-client'' now of
        None \<Rightarrow> Inl InvalidRefreshToken
      | Some c \<Rightarrow> Inr c)"

text \<open>The test \<open>!refreshToken\<close> on a cookie value: only the empty string is falsy.\<close>

definition truthy_token :: "token \<Rightarrow> bool" where
  "truthy_token t = (case t of Opaque s \<Rightarrow> s \<noteq> [] | Jwt k c \<Rightarrow> True)"

section \<open>Persistence (the database half of server/utils/jwt.js)\<close>

datatype provider = Local | Google | GitHub

text \<open>
  A stored user. The fields are the source's, prefixed (\<open>u_id\<close> is \<open>id\<close>, and so on);
  timestamps are the clock reading in milliseconds that the ISO string encodes.
\<close>

record user =
  u_id :: string
  u_email :: string
  u_password :: "string option"
  u_name :: "string option"
  u_avatar :: "string option"
  u_provider :: provider
  u_isVerified :: "bool option"
  u_googleId :: "string option"
  u_githubId :: "string option"
  u_createdAt :: nat
  u_updatedAt :: nat

text \<open>The \<open>userData\<close> argument of \<open>createUser\<close> and \<open>findOrCreateUser\<close>.\<close>

record userData =
  d_email :: string
  d_password :: "string option"
  d_name :: "string option"
  d_avatar :: "string option"
  d_provider :: provider
  d_isVerified :: "bool option"
  d_googleId :: "string option"
  d_githubId :: "string option"

record refreshToken =
  rt_id :: string
  rt_userId :: string
  rt_token :: token
  rt_createdAt :: nat
  rt_expiresAt :: nat

record database =
  users :: "user list"
  refreshTokens :: "refreshToken list"

text \<open>
  The JSON file. \<open>readDB\<close> throws when the file cannot be read or parsed, \<open>writeDB\<close>
  when it cannot be written; a missing file is created holding the empty database, so
  it is not told apart from one that holds it.
\<close>

record disk =
  content :: database
  readable :: bool
  writable :: bool

definition readDB :: "disk \<Rightarrow> error + database" where
  "readDB dk = (if readable dk then Inr (content dk) else Inl StorageFailure)"

definition writeDB :: "disk \<Rightarrow> database \<Rightarrow> error + disk" where
  "writeDB dk db = (if writable dk then Inr (dk\<lparr>content := db\<rparr>) else Inl StorageFailure)"

text \<open>
  \<open>{ id: generateId(), ...userData, createdAt, updatedAt }\<close>; the generated id and the
  clock come from the environment.
\<close>

definition new_user :: "string \<Rightarrow> userData \<Rightarrow> nat \<Rightarrow> user" where
  "new_user new_id ud now =
     \<lparr>u_id = new_id, u_email = d_email ud, u_password = d_password ud, u_name = d_name ud,
      u_avatar = d_avatar ud, u_provider = d_provider ud, u_isVerified = d_isVerified ud,
      u_googleId = d_googleId ud, u_githubId = d_githubId ud,
      u_createdAt = now, u_updatedAt = now\<rparr>"

definition createUser :: "disk \<Rightarrow> userData \<Rightarrow> string \<Rightarrow> nat \<Rightarrow> error + (user \<times> disk)" where
  "createUser dk ud new_id now =
     (case readDB dk of
        Inl e \<Rightarrow> Inl e
      | Inr db \<Rightarrow>
          (let usr = new_user new_id ud now in
           case writeDB dk (db\<lparr>users := users db @ [usr]\<rparr>) of
             Inl e \<Rightarrow> Inl e
           | Inr dk' \<Rightarrow> Inr (usr, dk')))"

definition getUserByEmail :: "disk \<Rightarrow> string \<Rightarrow> error + user option" where
  "getUserByEmail dk email =
     (case readDB dk of
        Inl e \<Rightarrow> Inl e
      | Inr db \<Rightarrow> Inr (find (\<lambda>u. u_email u = email) (users db)))"

definition getUserById :: "disk \<Rightarrow> string \<Rightarrow> error + user option" where
  "getUserById dk i =
     (case readDB dk of
        Inl e \<Rightarrow> Inl e
      | Inr db \<Rightarrow> Inr (find (\<lambda>u. u_id u = i) (users db)))"

text \<open>
  \<open>findOrCreateUser\<close> mutates the object that \<open>find\<close> returned, which is the first
  matching element of the array: \<open>replace_first\<close> writes the mutated object back in
  its place.
\<close>

fun replace_first :: "('a \<Rightarrow> bool) \<Rightarrow> 'a \<Rightarrow> 'a list \<Rightarrow> 'a list" where
  "replace_first P y [] = []"
| "replace_first P y (x # xs) = (if P x then y # xs else x # replace_first P y xs)"

definition oauth_update :: "user \<Rightarrow> userData \<Rightarrow> nat \<Rightarrow> user" where
  "oauth_update u ud now =
     (let u1 = u\<lparr>u_updatedAt := now\<rparr>;
          u2 = (if truthy (d_googleId ud) then u1\<lparr>u_googleId := d_googleId ud\<rparr> else u1);
          u3 = (if truthy (d_githubId ud) then u2\<lparr>u_githubId := d_githubId ud\<rparr> else u2)
      in if truthy (d_avatar ud) then u3\<lparr>u_avatar := d_avatar ud\<rparr> else u3)"

definition findOrCreateUser :: "disk \<Rightarrow> userData \<Rightarrow> string \<Rightarrow> nat \<Rightarrow> error + (user \<times> disk)" where
  "findOrCreateUser dk ud new_id now =
     (case readDB dk of
        Inl e \<Rightarrow> Inl e
      | Inr db \<Rightarrow>
          (case find (\<lambda>u. u_email u = d_email ud) (users db) of
             None \<Rightarrow>
               (let usr = new_user new_id ud now in
                case writeDB dk (db\<lparr>users := users db @ [usr]\<rparr>) of
                  Inl e \<Rightarrow> Inl e
                | Inr dk' \<Rightarrow> Inr (usr, dk'))
           | Some u \<Rightarrow>
               (let usr = oauth_update u ud now in
                case writeDB dk
                       (db\<lparr>users := replace_first (\<lambda>u. u_email u = d_email ud) usr (users db)\<rparr>) of
                  Inl e \<Rightarrow> Inl e
                | Inr dk' \<Rightarrow> Inr (usr, dk'))))"

definition saveRefreshToken ::
  "disk \<Rightarrow> string \<Rightarrow> token \<Rightarrow> string \<Rightarrow> nat \<Rightarrow> error + (refreshToken \<times> disk)" where
  "saveRefreshToken dk userId t new_id now =
     (case readDB dk of
        Inl e \<Rightarrow> Inl e
      | Inr db \<Rightarrow>
          (let rt = \<lparr>rt_id = new_id, rt_userId = userId, rt_token = t, rt_createdAt = now,
                     rt_expiresAt = now + 7 * 24 * 60 * 60 * 1000\<rparr> in
           case writeDB dk (db\<lparr>refreshTokens := refreshTokens db @ [rt]\<rparr>) of
             Inl e \<Rightarrow> Inl e
           | Inr dk' \<Rightarrow> Inr (rt, dk')))"

definition getRefreshToken :: "disk \<Rightarrow> token \<Rightarrow> nat \<Rightarrow> error + refreshToken option" where
  "getRefreshToken dk t now =
     (case readDB dk of
        Inl e \<Rightarrow> Inl e
      | Inr db \<Rightarrow> Inr (find (\<lambda>rt. rt_token rt = t \<and> now < rt_expiresAt rt) (refreshTokens db)))"

definition deleteRefreshToken :: "disk \<Rightarrow> token \<Rightarrow> error + disk" where
  "deleteRefreshToken dk t =
     (case readDB dk of
        Inl e \<Rightarrow> Inl e
      | Inr db \<Rightarrow> writeDB dk (db\<lparr>refreshTokens := filter (\<lambda>rt. rt_token rt \<noteq> t) (refreshTokens db)\<rparr>))"

definition deleteUserRefreshTokens :: "disk \<Rightarrow> string \<Rightarrow> error + disk" where
  "deleteUserRefreshTokens dk userId =
     (case readDB dk of
        Inl e \<Rightarrow> Inl e
      | Inr db \<Rightarrow> writeDB dk (db\<lparr>refreshTokens := filter (\<lambda>rt. rt_userId rt \<noteq> userId) (refreshTokens db)\<rparr>))"

section \<open>Identity providers (server/config/passport.js)\<close>

text \<open>
  The profile passport hands to a strategy's callback. \<open>emails\<close> and \<open>photos\<close>
  are arrays of \<open>{value}\<close> objects that the provider may leave out altogether.
\<close>

record profile =
  pr_id :: string
  pr_displayName :: "string option"
  pr_username :: "string option"
  pr_emails :: "string list option"
  pr_photos :: "string list option"

text \<open>\<open>xs[0].value\<close>: a TypeError when the array is undefined or empty.\<close>

definition first_value :: "string list option \<Rightarrow> error + string" where
  "first_value xs = (case xs of None \<Rightarrow> Inl TypeError | Some [] \<Rightarrow> Inl TypeError | Some (x # _) \<Rightarrow> Inr x)"

text \<open>\<open>xs?.[0]?.value\<close>: undefined instead of the TypeError.\<close>

definition first_value_opt :: "string list option \<Rightarrow> string option" where
  "first_value_opt xs = (case xs of None \<Rightarrow> None | Some [] \<Rightarrow> None | Some (x # _) \<Rightarrow> Some x)"

definition github_email :: "profile \<Rightarrow> string" where
  "github_email pr =
     (if truthy (first_value_opt (pr_emails pr)) then the (first_value_opt (pr_emails pr))
      else template (pr_username pr) @ ''@github.local'')"

definition github_name :: "profile \<Rightarrow> string option" where
  "github_name pr = (if truthy (pr_displayName pr) then pr_displayName pr else pr_username pr)"

text \<open>
  The object each strategy callback hands to \<open>findOrCreateUser\<close>, from the provider's
  id for the user, the email, the name and the avatar: the id goes to the field of the
  calling provider, and the other provider's field is not set.
\<close>

definition google_userData :: "string \<Rightarrow> string \<Rightarrow> string option \<Rightarrow> string option \<Rightarrow> userData" where
  "google_userData external_id email name avatar =
     \<lparr>d_email = email, d_password = None, d_name = name, d_avatar = avatar,
      d_provider = Google, d_isVerified = None,
      d_googleId = Some external_id, d_githubId = None\<rparr>"

definition github_userData :: "string \<Rightarrow> string \<Rightarrow> string option \<Rightarrow> string option \<Rightarrow> userData" where
  "github_userData external_id email name avatar =
     \<lparr>d_email = email, d_password = None, d_name = name, d_avatar = avatar,
      d_provider = GitHub, d_isVerified = None,
      d_googleId = None, d_githubId = Some external_id\<rparr>"

text \<open>
  The strategy callbacks: \<open>Inr\<close> is \<open>done(null, user)\<close>, \<open>Inl\<close> is
  \<open>done(error, null)\<close>.
\<close>

definition google_verify :: "disk \<Rightarrow> profile \<Rightarrow> string \<Rightarrow> nat \<Rightarrow> error + (user \<times> disk)" where
  "google_verify dk pr new_id now =
     (case first_value (pr_emails pr) of
        Inl e \<Rightarrow> Inl e
      | Inr email \<Rightarrow>
          (case first_value (pr_photos pr) of
             Inl e \<Rightarrow> Inl e
           | Inr photo \<Rightarrow>
               findOrCreateUser dk
                 (google_userData (pr_id pr) email (pr_displayName pr) (Some photo)) new_id now))"

definition github_verify :: "disk \<Rightarrow> profile \<Rightarrow> string \<Rightarrow> nat \<Rightarrow> error + (user \<times> disk)" where
  "github_verify dk pr new_id now =
     (case first_value (pr_photos pr) of
        Inl e \<Rightarrow> Inl e
      | Inr photo \<Rightarrow>
          findOrCreateUser dk
            (github_userData (pr_id pr) (github_email pr) (github_name pr) (Some photo)) new_id now)"

section \<open>Session issuer (the auth routes)\<close>

text \<open>
  A handler takes the disk, the request and what the environment supplies, and returns
  the response with the disk it leaves. \<open>hashedPassword\<close> is what \<open>bcrypt.hash\<close>
  returned; \<open>user_id\<close> and \<open>token_id\<close> are the results of \<open>generateId()\<close>.
  Register takes the body of the request as it arrives and runs its validation chain
  itself, and takes one clock reading for each place it reads the clock: in
  \<open>createUser\<close>, when it signs the two tokens, and in \<open>saveRefreshToken\<close>. For the
  other routes \<open>valid\<close> is whether the validation chain found no error, the fields of
  the body are as its sanitizers left them, and \<open>now\<close> is the one instant the request
  reads the clock at. A response is its status, its body and what it does to
  the \<open>refreshToken\<close> cookie; of an error body the \<open>error\<close> string is kept (not the
  \<open>details\<close> or \<open>message\<close> beside it), of a redirect whether it carries the access
  token or \<open>error=oauth_failed\<close>.
\<close>

datatype cookie_op = NoCookie | SetRefresh token | ClearRefresh

datatype body =
    ErrorJson string
  | ValidationFailed
  | AuthJson string user token
  | AccessTokenJson token
  | MessageJson string
  | RedirectWithToken token
  | RedirectOAuthFailed

record response =
  status :: nat
  body :: body
  cookie :: cookie_op

definition reply :: "nat \<Rightarrow> body \<Rightarrow> cookie_op \<Rightarrow> response" where
  "reply s b c = \<lparr>status = s, body = b, cookie = c\<rparr>"

text \<open>
  The token pair of a new session: the access token carries the user's id and email,
  the refresh token the id only.
\<close>

definition access_payload :: "user \<Rightarrow> payload" where
  "access_payload u = \<lparr>p_userId = Some (u_id u), p_email = Some (u_email u)\<rparr>"

definition refresh_payload :: "user \<Rightarrow> payload" where
  "refresh_payload u = \<lparr>p_userId = Some (u_id u), p_email = None\<rparr>"

subsection \<open>registerValidation\<close>

text \<open>
  The character classes of the two patterns. \<open>js_space\<close> is \<open>\s\<close> on the ASCII
  characters: tab, line feed, vertical tab, form feed, carriage return and space.
\<close>

definition is_lower :: "char \<Rightarrow> bool" where
  "is_lower c = (c \<in> set ''abcdefghijklmnopqrstuvwxyz'')"

definition is_upper :: "char \<Rightarrow> bool" where
  "is_upper c = (c \<in> set ''ABCDEFGHIJKLMNOPQRSTUVWXYZ'')"

definition is_digit :: "char \<Rightarrow> bool" where
  "is_digit c = (c \<in> set ''0123456789'')"

definition is_special :: "char \<Rightarrow> bool" where
  "is_special c = (c \<in> set ''@$!%*?&'')"

definition js_space :: "char \<Rightarrow> bool" where
  "js_space c = (c \<in> set [CHR 0x09, CHR 0x0A, CHR 0x0B, CHR 0x0C, CHR 0x0D, CHR '' ''])"

text \<open>The sanitizer \<open>trim()\<close>: white space off both ends.\<close>

definition trim :: "string \<Rightarrow> string" where
  "trim s = rev (dropWhile js_space (rev (dropWhile js_space s)))"

text \<open>
  The password pattern: four lookaheads at the start, each \<open>.*\<close> followed by a
  class, then one character of the allowed class. A dot does not match a line
  terminator (on ASCII text, a line feed or a carriage return), so the lookaheads
  search the first line; nothing anchors the end. Lengths are those of ASCII text.
\<close>

definition first_line :: "string \<Rightarrow> string" where
  "first_line s = takeWhile (\<lambda>c. c \<noteq> CHR 0x0A \<and> c \<noteq> CHR 0x0D) s"

definition password_pattern :: "string \<Rightarrow> bool" where
  "password_pattern p =
     (list_ex is_lower (first_line p) \<and> list_ex is_upper (first_line p)
      \<and> list_ex is_digit (first_line p) \<and> list_ex is_special (first_line p)
      \<and> (case p of [] \<Rightarrow> False
          | c # cs \<Rightarrow> is_lower c \<or> is_upper c \<or> is_digit c \<or> is_special c))"

text \<open>The name pattern: one or more letters, white space, apostrophes or hyphens, to the end.\<close>

definition name_pattern :: "string \<Rightarrow> bool" where
  "name_pattern n =
     (n \<noteq> [] \<and> list_all (\<lambda>c. is_lower c \<or> is_upper c \<or> js_space c \<or> c = CHR 0x27 \<or> c = CHR ''-'') n)"

text \<open>
  Whether the chain finds no error. \<open>isEmail\<close> is the validator of that name, which
  the chain applies to the address as it arrives; the name is checked after \<open>trim()\<close>.
\<close>

definition registerValidation :: "(string \<Rightarrow> bool) \<Rightarrow> string \<Rightarrow> string \<Rightarrow> string \<Rightarrow> bool" where
  "registerValidation isEmail email password name =
     (isEmail email
      \<and> 8 \<le> length password \<and> password_pattern password
      \<and> 2 \<le> length (trim name) \<and> length (trim name) \<le> 50 \<and> name_pattern (trim name))"

subsection \<open>The routes\<close>

text \<open>
  \<open>register\<close>: \<open>isEmail\<close> and \<open>normalizeEmail\<close> are the two functions of the
  validator library the chain calls on the address (\<open>normalizeEmail\<close> taken to return
  a string); the route reads the address and the name as the sanitizers
  \<open>normalizeEmail()\<close> and \<open>trim()\<close> left them.
\<close>

definition register ::
  "disk \<Rightarrow> (string \<Rightarrow> bool) \<Rightarrow> (string \<Rightarrow> string) \<Rightarrow> string \<Rightarrow> string \<Rightarrow> string \<Rightarrow> string \<Rightarrow>
   string \<Rightarrow> string \<Rightarrow> nat \<Rightarrow> nat \<Rightarrow> nat \<Rightarrow> response \<times> disk" where
  "register dk isEmail normalizeEmail raw_email password raw_name hashedPassword
     user_id token_id t_create t_sign t_save =
     (if \<not> registerValidation isEmail raw_email password raw_name
      then (reply 400 ValidationFailed NoCookie, dk)
      else
        (let email = normalizeEmail raw_email; name = trim raw_name in
         case getUserByEmail dk email of
           Inl e \<Rightarrow> (reply 500 (ErrorJson ''Registration failed'') NoCookie, dk)
         | Inr (Some existingUser) \<Rightarrow> (reply 409 (ErrorJson ''User already exists'') NoCookie, dk)
         | Inr None \<Rightarrow>
             (case createUser dk
                     \<lparr>d_email = email, d_password = Some hashedPassword, d_name = Some name,
                      d_avatar = None, d_provider = Local, d_isVerified = Some True,
                      d_googleId = None, d_githubId = None\<rparr> user_id t_create of
                Inl e \<Rightarrow> (reply 500 (ErrorJson ''Registration failed'') NoCookie, dk)
              | Inr (usr, dk1) \<Rightarrow>
                  (let accessToken = generateAccessToken (access_payload usr) t_sign;
                       refreshToken = generateRefreshToken (refresh_payload usr) t_sign in
                   case saveRefreshToken dk1 (u_id usr) refreshToken token_id t_save of
                     Inl e \<Rightarrow> (reply 500 (ErrorJson ''Registration failed'') NoCookie, dk1)
                   | Inr (rt, dk2) \<Rightarrow>
                       (reply 201
                          (AuthJson ''User registered successfully'' (usr\<lparr>u_password := None\<rparr>)
                             accessToken)
                          (SetRefresh refreshToken), dk2)))))"

text \<open>\<open>compare\<close> is \<open>bcrypt.compare\<close>, password first, digest second.\<close>

definition login ::
  "disk \<Rightarrow> bool \<Rightarrow> string \<Rightarrow> string \<Rightarrow> (string \<Rightarrow> string \<Rightarrow> bool) \<Rightarrow> string \<Rightarrow> nat \<Rightarrow> response \<times> disk" where
  "login dk valid email password compare token_id now =
     (if \<not> valid then (reply 400 ValidationFailed NoCookie, dk)
      else case getUserByEmail dk email of
        Inl e \<Rightarrow> (reply 500 (ErrorJson ''Login failed'') NoCookie, dk)
      | Inr None \<Rightarrow> (reply 401 (ErrorJson ''Invalid credentials'') NoCookie, dk)
      | Inr (Some usr) \<Rightarrow>
          if \<not> truthy (u_password usr) then (reply 401 (ErrorJson ''Invalid credentials'') NoCookie, dk)
          else if \<not> compare password (the (u_password usr))
          then (reply 401 (ErrorJson ''Invalid credentials'') NoCookie, dk)
          else
            (let accessToken = generateAccessToken (access_payload usr) now;
                 refreshToken = generateRefreshToken (refresh_payload usr) now in
             case saveRefreshToken dk (u_id usr) refreshToken token_id now of
               Inl e \<Rightarrow> (reply 500 (ErrorJson ''Login failed'') NoCookie, dk)
             | Inr (rt, dk1) \<Rightarrow>
                 (reply 200 (AuthJson ''Login successful'' (usr\<lparr>u_password := None\<rparr>) accessToken)
                    (SetRefresh refreshToken), dk1)))"

text \<open>
  \<open>refresh\<close>: the cookie is \<open>None\<close> when the request carries none. Everything thrown
  inside the \<open>try\<close>, by the codec or by the store, ends in the one \<open>catch\<close>.
\<close>

definition refresh :: "disk \<Rightarrow> token option \<Rightarrow> nat \<Rightarrow> response \<times> disk" where
  "refresh dk cookie_value now =
     (case cookie_value of
        None \<Rightarrow> (reply 401 (ErrorJson ''Refresh token required'') NoCookie, dk)
      | Some refreshToken \<Rightarrow>
          if \<not> truthy_token refreshToken
          then (reply 401 (ErrorJson ''Refresh token required'') NoCookie, dk)
          else
            (case verifyRefreshToken refreshToken now of
               Inl e \<Rightarrow> (reply 403 (ErrorJson ''Invalid refresh token'') NoCookie, dk)
             | Inr decoded \<Rightarrow>
                 (case getRefreshToken dk refreshToken now of
                    Inl e \<Rightarrow> (reply 403 (ErrorJson ''Invalid refresh token'') NoCookie, dk)
                  | Inr None \<Rightarrow> (reply 403 (ErrorJson ''Invalid refresh token'') NoCookie, dk)
                  | Inr (Some storedToken) \<Rightarrow>
                      (reply 200
                         (AccessTokenJson
                            (generateAccessToken
                               \<lparr>p_userId = c_userId decoded, p_email = c_email decoded\<rparr> now))
                         NoCookie, dk))))"

definition logout :: "disk \<Rightarrow> token option \<Rightarrow> response \<times> disk" where
  "logout dk cookie_value =
     (case cookie_value of
        None \<Rightarrow> (reply 200 (MessageJson ''Logout successful'') ClearRefresh, dk)
      | Some refreshToken \<Rightarrow>
          if \<not> truthy_token refreshToken
          then (reply 200 (MessageJson ''Logout successful'') ClearRefresh, dk)
          else
            (case deleteRefreshToken dk refreshToken of
               Inl e \<Rightarrow> (reply 500 (ErrorJson ''Logout failed'') NoCookie, dk)
             | Inr dk1 \<Rightarrow> (reply 200 (MessageJson ''Logout successful'') ClearRefresh, dk1)))"

text \<open>
  \<open>logout_all\<close> runs behind the \<open>authenticateToken\<close> middleware, which is not among
  the sources; \<open>req_user\<close> is the user that middleware put on the request.
\<close>

definition logout_all :: "disk \<Rightarrow> user \<Rightarrow> response \<times> disk" where
  "logout_all dk req_user =
     (case deleteUserRefreshTokens dk (u_id req_user) of
        Inl e \<Rightarrow> (reply 500 (ErrorJson ''Logout failed'') NoCookie, dk)
      | Inr dk1 \<Rightarrow> (reply 200 (MessageJson ''Logged out from all devices'') ClearRefresh, dk1))"

text \<open>
  The two OAuth callback routes have the same body; \<open>req_user\<close> is the user the
  strategy callback resolved.
\<close>

definition oauth_callback :: "disk \<Rightarrow> user \<Rightarrow> string \<Rightarrow> nat \<Rightarrow> response \<times> disk" where
  "oauth_callback dk req_user token_id now =
     (let accessToken = generateAccessToken (access_payload req_user) now;
          refreshToken = generateRefreshToken (refresh_payload req_user) now in
      case saveRefreshToken dk (u_id req_user) refreshToken token_id now of
        Inl e \<Rightarrow> (reply 302 RedirectOAuthFailed NoCookie, dk)
      | Inr (rt, dk1) \<Rightarrow> (reply 302 (RedirectWithToken accessToken) (SetRefresh refreshToken), dk1))"



section \<open>Client session agent (class AuthService)\<close>

text \<open>
  A request is its axios config: the url, the \<open>Authorization\<close> header (the token
  after \<open>Bearer\<close>; a header written from an undefined token is not told apart from no
  header) and the \<open>_retry\<close> mark the response interceptor sets. The transport answers
  with a status and, in the body, possibly an \<open>accessToken\<close>, or not at all; axios
  resolves a 2xx answer and rejects every other one.
\<close>

record request =
  url :: string
  authorization :: "token option"
  retry :: bool

datatype outcome = Http nat "token option" | NetworkError

datatype settled = Resolved nat "token option" | Rejected outcome

text \<open>
  The agent: \<open>this.token\<close>, the \<open>accessToken\<close> item of localStorage (\<open>None\<close> when
  there is no item, \<open>Some v\<close> when one was written from the value \<open>v\<close>), and the
  page \<open>window.location.href\<close> was last set to.
\<close>

record agent =
  held :: "token option"
  stored :: "token option option"
  location :: "string option"

definition held_truthy :: "agent \<Rightarrow> bool" where
  "held_truthy a = (case held a of None \<Rightarrow> False | Some t \<Rightarrow> truthy_token t)"

text \<open>The request interceptor.\<close>

definition attach :: "agent \<Rightarrow> request \<Rightarrow> request" where
  "attach a rq = (if held_truthy a then rq\<lparr>authorization := held a\<rparr> else rq)"

definition API_BASE_URL :: string where
  "API_BASE_URL = ''http://localhost:5000/api''"

text \<open>The config of the call \<open>refreshToken()\<close> makes: a new object, so without the mark.\<close>

definition refresh_request :: request where
  "refresh_request = \<lparr>url = API_BASE_URL @ ''/auth/refresh'', authorization = None, retry = False\<rparr>"

text \<open>
  \<open>send\<close> is one call through both interceptors. The transport is a state machine
  (\<open>srv\<close>, from its state and a request to an outcome and its next state). The
  response interceptor calls \<open>refreshToken()\<close>, which is itself a call through the
  same interceptors, and replays the request through them; nothing bounds that
  recursion, so \<open>send\<close> takes fuel and \<open>None\<close> means the fuel ran out before the
  call settled.
\<close>

fun send ::
  "nat \<Rightarrow> ('s \<Rightarrow> request \<Rightarrow> outcome \<times> 's) \<Rightarrow> agent \<Rightarrow> 's \<Rightarrow> request \<Rightarrow> (settled \<times> agent \<times> 's) option" where
  "send 0 srv a s rq = None"
| "send (Suc n) srv a s rq =
     (let originalRequest = attach a rq in
      case srv s originalRequest of
        (NetworkError, s1) \<Rightarrow> Some (Rejected NetworkError, a, s1)
      | (Http st data, s1) \<Rightarrow>
          if 200 \<le> st \<and> st < 300 then Some (Resolved st data, a, s1)
          else if st = 401 \<and> \<not> retry originalRequest then
            (case send n srv a s1 refresh_request of
               None \<Rightarrow> None
             | Some (Resolved st2 data2, a2, s2) \<Rightarrow>
                 send n srv (a2\<lparr>held := data2, stored := Some data2\<rparr>) s2
                   (originalRequest\<lparr>retry := True, authorization := data2\<rparr>)
             | Some (Rejected refreshError, a2, s2) \<Rightarrow>
                 Some (Rejected refreshError,
                       a2\<lparr>held := None, stored := None, location := Some ''/login''\<rparr>, s2))
          else Some (Rejected (Http st data), a, s1))"

section \<open>Invariants of the store\<close>

text \<open>
  The user a token was signed for, and the invariant every issuing route keeps: a record
  is stored under the user its token names (\<open>saveRefreshToken(user.id, refreshToken)\<close>
  with \<open>refreshToken\<close> signed over \<open>{ userId: user.id }\<close>).
\<close>

definition token_owner :: "token \<Rightarrow> string option" where
  "token_owner t = (case t of Jwt k c \<Rightarrow> c_userId c | Opaque s \<Rightarrow> None)"

definition owner_consistent :: "database \<Rightarrow> bool" where
  "owner_consistent db =
     (\<forall>rt \<in> set (refreshTokens db). token_owner (rt_token rt) = Some (rt_userId rt))"

section \<open>The validator library, in part\<close>

text \<open>
  \<open>normalizeEmail\<close> at its default options, for an address at \<open>gmail.com\<close> or
  \<open>googlemail.com\<close> whose user part does not come out empty, and for an address of
  a domain the library has no rule for (its rules for iCloud, Outlook, Yahoo and
  Yandex addresses are left out). The domain, after the last \<open>@\<close>, is lowercased. For
  Gmail the user part is cut at the first \<open>+\<close>, loses every dot that stands alone
  (a run of dots is kept), and is lowercased, and the domain becomes \<open>gmail.com\<close>;
  otherwise the user part is lowercased.
\<close>

definition to_lower :: "char \<Rightarrow> char" where
  "to_lower c =
     (case map_of (zip ''ABCDEFGHIJKLMNOPQRSTUVWXYZ'' ''abcdefghijklmnopqrstuvwxyz'') c of
        None \<Rightarrow> c
      | Some l \<Rightarrow> l)"

fun drop_single_dots :: "bool \<Rightarrow> string \<Rightarrow> string" where
  "drop_single_dots after_dot [] = []"
| "drop_single_dots after_dot (c # cs) =
     (if c = CHR ''.'' \<and> \<not> after_dot \<and> (case cs of [] \<Rightarrow> True | d # ds \<Rightarrow> d \<noteq> CHR ''.'')
      then drop_single_dots False cs
      else c # drop_single_dots (c = CHR ''.'') cs)"

definition normalizeEmail_default :: "string \<Rightarrow> string" where
  "normalizeEmail_default email =
     (let domain = map to_lower (rev (takeWhile (\<lambda>c. c \<noteq> CHR ''@'') (rev email)));
          user_part = rev (drop 1 (dropWhile (\<lambda>c. c \<noteq> CHR ''@'') (rev email)))
      in if domain = ''gmail.com'' \<or> domain = ''googlemail.com''
         then map to_lower (drop_single_dots False (takeWhile (\<lambda>c. c \<noteq> CHR ''+'') user_part))
              @ ''@gmail.com''
         else map to_lower user_part @ ''@'' @ domain)"

text \<open>
  A stand-in for \<open>isEmail\<close> on the addresses of the scenarios, all of which the
  library accepts: one \<open>@\<close>, something before it and a dot after it.
\<close>

definition isEmail_shape :: "string \<Rightarrow> bool" where
  "isEmail_shape s =
     (length (filter (\<lambda>c. c = CHR ''@'') s) = 1
      \<and> takeWhile (\<lambda>c. c \<noteq> CHR ''@'') s \<noteq> []
      \<and> CHR ''.'' \<in> set (dropWhile (\<lambda>c. c \<noteq> CHR ''@'') s))"

section \<open>Scenarios\<close>

text \<open>A client that presents the same cookie at each of a list of instants.\<close>

fun refresh_seq :: "disk \<Rightarrow> token option \<Rightarrow> nat list \<Rightarrow> response list \<times> disk" where
  "refresh_seq dk c [] = ([], dk)"
| "refresh_seq dk c (now # nows) =
     (case refresh dk c now of
        (r, dk1) \<Rightarrow> (case refresh_seq dk1 c nows of (rs, dk2) \<Rightarrow> (r # rs, dk2)))"

text \<open>
  A working disk holding the empty database, and the session that a first registration
  opens on it: the user is created at clock 1997, the tokens are signed at 1999 and
  the record is saved at 2003.
\<close>

definition empty_disk :: disk where
  "empty_disk = \<lparr>content = \<lparr>users = [], refreshTokens = []\<rparr>, readable = True, writable = True\<rparr>"

definition session_disk :: disk where
  "session_disk =
     snd (register empty_disk isEmail_shape normalizeEmail_default ''a@x.com'' ''Abc12345!'' ''Al''
            ''digest'' ''u1'' ''r1'' 1997 1999 2003)"

definition session_token :: token where
  "session_token = generateRefreshToken \<lparr>p_userId = Some ''u1'', p_email = None\<rparr> 1999"

definition session_record :: refreshToken where
  "session_record = \<lparr>rt_id = ''r1'', rt_userId = ''u1'', rt_token = session_token,
                      rt_createdAt = 2003, rt_expiresAt = 604802003\<rparr>"

definition session_user :: user where
  "session_user = \<lparr>u_id = ''u1'', u_email = ''a@x.com'', u_password = Some ''digest'',
                    u_name = Some ''Al'', u_avatar = None, u_provider = Local,
                    u_isVerified = Some True, u_googleId = None, u_githubId = None,
                    u_createdAt = 1997, u_updatedAt = 1997\<rparr>"

text \<open>A second registration, a second later, on the disk of the first.\<close>

definition second_disk :: disk where
  "second_disk =
     snd (register session_disk isEmail_shape normalizeEmail_default ''b@x.com'' ''Xyz98765?'' ''Bo''
            ''digest2'' ''u2'' ''r2'' 2997 2999 3003)"

definition second_token :: token where
  "second_token = generateRefreshToken \<lparr>p_userId = Some ''u2'', p_email = None\<rparr> 2999"

definition second_record :: refreshToken where
  "second_record = \<lparr>rt_id = ''r2'', rt_userId = ''u2'', rt_token = second_token,
                     rt_createdAt = 3003, rt_expiresAt = 604803003\<rparr>"

definition second_user :: user where
  "second_user = \<lparr>u_id = ''u2'', u_email = ''b@x.com'', u_password = Some ''digest2'',
                   u_name = Some ''Bo'', u_avatar = None, u_provider = Local,
                   u_isVerified = Some True, u_googleId = None, u_githubId = None,
                   u_createdAt = 2997, u_updatedAt = 2997\<rparr>"

text \<open>
  An OAuth profile for the address of the first registration, with a photo and the
  provider's id \<open>g-1\<close>.
\<close>

definition linked_profile :: profile where
  "linked_profile = \<lparr>pr_id = ''g-1'', pr_displayName = Some ''Alice G'', pr_username = Some ''alice'',
                      pr_emails = Some [''a@x.com''], pr_photos = Some [''http://p'']\<rparr>"

text \<open>
  A GitHub profile that exposes no email, and the disk after its first callback on the
  disk of the first registration.
\<close>

definition hidden_profile :: profile where
  "hidden_profile = \<lparr>pr_id = ''gh-7'', pr_displayName = None, pr_username = Some ''octocat'',
                      pr_emails = None, pr_photos = Some [''http://o'']\<rparr>"

definition octocat :: user where
  "octocat = \<lparr>u_id = ''u3'', u_email = ''octocat@github.local'', u_password = None,
               u_name = Some ''octocat'', u_avatar = Some ''http://o'', u_provider = GitHub,
               u_isVerified = None, u_googleId = None, u_githubId = Some ''gh-7'',
               u_createdAt = 3000, u_updatedAt = 3000\<rparr>"

definition github_disk :: disk where
  "github_disk =
     (case github_verify session_disk hidden_profile ''u3'' 3000 of
        Inl e \<Rightarrow> session_disk
      | Inr (u, dk) \<Rightarrow> dk)"





text \<open>A \<open>bcrypt.compare\<close> under which the digest of the first registration matches \<open>pw\<close>.\<close>

definition digest_of_pw :: "string \<Rightarrow> string \<Rightarrow> bool" where
  "digest_of_pw password digest = (password = ''pw'' \<and> digest = ''digest'')"

text \<open>
  A client holding a stale access token that asks for its profile, and two transports.
  The first answers 401 to every request and counts them; the refresh route answers
  401 to a request without a refresh cookie. The second keeps the requests it has seen, answers 401 to the first
  \<open>/auth/refresh\<close> and 200 with a fresh token to the later ones, and accepts only the
  fresh token elsewhere.
\<close>

definition profile_request :: request where
  "profile_request = \<lparr>url = API_BASE_URL @ ''/user/profile'', authorization = None, retry = False\<rparr>"

definition stale_agent :: agent where
  "stale_agent = \<lparr>held = Some (Opaque ''stale''), stored = Some (Some (Opaque ''stale'')), location = None\<rparr>"

definition always_401 :: "nat \<Rightarrow> request \<Rightarrow> outcome \<times> nat" where
  "always_401 count rq = (Http 401 None, Suc count)"

definition refresh_401_once :: "request list \<Rightarrow> request \<Rightarrow> outcome \<times> request list" where
  "refresh_401_once seen rq =
     ((if url rq = url refresh_request
       then (if filter (\<lambda>r. url r = url refresh_request) seen = [] then Http 401 None
             else Http 200 (Some (Opaque ''fresh'')))
       else (if authorization rq = Some (Opaque ''fresh'') then Http 200 None else Http 401 None)),
      seen @ [rq])"

section \<open>Verification\<close>

lemmas codec_defs = generateAccessToken_def generateRefreshToken_def verifyRefreshToken_def
  verifyAccessToken_def jwt_sign_def jwt_verify_def ACCESS_TOKEN_SECRET_def REFRESH_TOKEN_SECRET_def
  truthy_token_def

lemmas store_defs = readDB_def writeDB_def createUser_def getUserByEmail_def getUserById_def
  findOrCreateUser_def saveRefreshToken_def getRefreshToken_def deleteRefreshToken_def
  deleteUserRefreshTokens_def new_user_def

subsection \<open>The scenario, evaluated\<close>

lemmas validation_defs = registerValidation_def password_pattern_def name_pattern_def
  first_line_def trim_def js_space_def is_lower_def is_upper_def is_digit_def is_special_def
  isEmail_shape_def

lemma normalizeEmail_plain:
  "normalizeEmail_default ''a@x.com'' = ''a@x.com''"
  "normalizeEmail_default ''b@x.com'' = ''b@x.com''"
  by (simp_all add: normalizeEmail_default_def to_lower_def)


lemma valid_bodies:
  "registerValidation isEmail_shape ''a@x.com'' ''Abc12345!'' ''Al''"
  "registerValidation isEmail_shape ''b@x.com'' ''Xyz98765?'' ''Bo''"
  "registerValidation isEmail_shape ''a@x.com'' ''Qrs24680&'' ''Eve''"
  "registerValidation isEmail_shape ''first.last@gmail.com'' ''Abc12345!'' ''First Last''"
  by (simp_all add: validation_defs)

lemma trimmed_names:
  "trim ''Al'' = ''Al''" "trim ''Bo'' = ''Bo''" "trim ''Eve'' = ''Eve''"
  "trim ''First Last'' = ''First Last''"
  by (simp_all add: trim_def js_space_def)

text \<open>The route refuses a name of one letter, whatever else the body holds.\<close>

lemma register_one_letter_name:
  "register dk isEmail normalizeEmail raw_email password ''A'' h user_id token_id t1 t2 t3 =
     (reply 400 ValidationFailed NoCookie, dk)"
  by (simp add: register_def registerValidation_def trim_def js_space_def)

lemma register_first:
  "register empty_disk isEmail_shape normalizeEmail_default ''a@x.com'' ''Abc12345!'' ''Al''
     ''digest'' ''u1'' ''r1'' 1997 1999 2003 =
     (reply 201
        (AuthJson ''User registered successfully'' (session_user\<lparr>u_password := None\<rparr>)
           (generateAccessToken \<lparr>p_userId = Some ''u1'', p_email = Some ''a@x.com''\<rparr> 1999))
        (SetRefresh session_token),
      \<lparr>content = \<lparr>users = [session_user], refreshTokens = [session_record]\<rparr>,
       readable = True, writable = True\<rparr>)"
  by (simp add: register_def valid_bodies normalizeEmail_plain trimmed_names empty_disk_def
      store_defs access_payload_def refresh_payload_def session_user_def session_record_def
      session_token_def Let_def)

lemma session_disk_eq:
  "session_disk = \<lparr>content = \<lparr>users = [session_user], refreshTokens = [session_record]\<rparr>,
                    readable = True, writable = True\<rparr>"
  by (simp add: session_disk_def register_first)

subsection \<open>Refresh\<close>

lemma verify_issued:
  "now div 1000 < t0 div 1000 + 7 * 24 * 60 * 60 \<Longrightarrow>
   verifyRefreshToken (generateRefreshToken p t0) now =
     Inr \<lparr>c_userId = p_userId p, c_email = p_email p, c_iat = t0 div 1000,
          c_exp = t0 div 1000 + 7 * 24 * 60 * 60, c_iss = ''secure-auth-app'',
          c_aud = ''secure-auth-client''\<rparr>"
  by (simp add: codec_defs)

lemma find_live:
  "rt \<in> set rts \<Longrightarrow> rt_token rt = t \<Longrightarrow> now < rt_expiresAt rt \<Longrightarrow>
   \<exists>st. find (\<lambda>r. rt_token r = t \<and> now < rt_expiresAt r) rts = Some st"
  by (cases "find (\<lambda>r. rt_token r = t \<and> now < rt_expiresAt r) rts") (auto simp: find_None_iff)

lemma payload_eta: "\<lparr>p_userId = p_userId p, p_email = p_email p\<rparr> = (p :: payload)"
  by (cases p) simp

lemma refresh_once:
  assumes "readable dk"
    and "rt \<in> set (refreshTokens (content dk))" and "rt_token rt = generateRefreshToken p t0"
    and "now < rt_expiresAt rt" and "now div 1000 < t0 div 1000 + 7 * 24 * 60 * 60"
  shows "refresh dk (Some (generateRefreshToken p t0)) now =
           (reply 200 (AccessTokenJson (generateAccessToken p now)) NoCookie, dk)"
proof -
  obtain st where "find (\<lambda>r. rt_token r = generateRefreshToken p t0 \<and> now < rt_expiresAt r)
                     (refreshTokens (content dk)) = Some st"
    using find_live assms(2,3,4) by blast
  then have "getRefreshToken dk (generateRefreshToken p t0) now = Inr (Some st)"
    using assms(1) by (simp add: getRefreshToken_def readDB_def)
  moreover have "truthy_token (generateRefreshToken p t0)"
    by (simp add: codec_defs)
  ultimately show ?thesis
    using verify_issued[OF assms(5), of p] by (simp add: refresh_def payload_eta)
qed

text \<open>
  The record is saved after the token is signed. The token's \<open>exp\<close>, in milliseconds,
  is then never after the record's \<open>expiresAt\<close>.
\<close>

lemma exp_before_expiresAt:
  assumes "t_sign \<le> t_save"
    and "saveRefreshToken dk uid (generateRefreshToken p t_sign) token_id t_save = Inr (rt, dk')"
  shows "rt_token rt = generateRefreshToken p t_sign"
    and "(t_sign div 1000 + 7 * 24 * 60 * 60) * 1000 \<le> rt_expiresAt rt"
  using assms
  by (auto simp: saveRefreshToken_def readDB_def writeDB_def Let_def split: if_splits)

text \<open>
  C1, as the code has it. On a readable disk, a refresh token that
  \<open>generateRefreshToken\<close> signed at clock \<open>t0\<close> and that a record \<open>rt\<close> of the store
  holds is accepted at every instant that is before the record's \<open>expiresAt\<close> and
  whose whole second is before the token's own \<open>exp\<close> (the whole second of \<open>t0\<close>
  plus seven days): each such Refresh answers 200 with an access token signed at that
  instant, and the disk, so the record too, is left as it was. The cookie is accepted
  at every instant of the list, however long.
\<close>

theorem refresh_repeatable:
  assumes "readable dk"
    and "rt \<in> set (refreshTokens (content dk))" and "rt_token rt = generateRefreshToken p t0"
    and "\<forall>now \<in> set nows. now < rt_expiresAt rt \<and> now div 1000 < t0 div 1000 + 7 * 24 * 60 * 60"
  shows "refresh_seq dk (Some (generateRefreshToken p t0)) nows =
           (map (\<lambda>now. reply 200 (AccessTokenJson (generateAccessToken p now)) NoCookie) nows, dk)"
  using assms(4)
proof (induction nows)
  case Nil
  show ?case by simp
next
  case (Cons now nows)
  then show ?case
    using refresh_once[OF assms(1,2,3), of now] by simp
qed

theorem refresh_repeatable_witness:
  "refresh_seq session_disk (Some session_token) [5000, 6000, 604800999] =
     ([reply 200 (AccessTokenJson (generateAccessToken \<lparr>p_userId = Some ''u1'', p_email = None\<rparr> 5000)) NoCookie,
       reply 200 (AccessTokenJson (generateAccessToken \<lparr>p_userId = Some ''u1'', p_email = None\<rparr> 6000)) NoCookie,
       reply 200 (AccessTokenJson (generateAccessToken \<lparr>p_userId = Some ''u1'', p_email = None\<rparr> 604800999)) NoCookie],
      session_disk)"
  using refresh_repeatable [of session_disk session_record "\<lparr>p_userId = Some ''u1'', p_email = None\<rparr>"
      1999 "[5000, 6000, 604800999]"]
  by (simp add: session_disk_eq session_record_def session_token_def)

text \<open>
  The claim as written fails between the token's \<open>exp\<close> and the record's
  \<open>expiresAt\<close>. The first registration signs its refresh token at clock 1999, so with
  \<open>exp\<close> = 604801 (seconds), and saves the record at 2003, so with \<open>expiresAt\<close> =
  604802003 (milliseconds); at clock 604801500, on the readable disk, the record is in
  the store and not yet expired, and Refresh answers 403.
\<close>

theorem refresh_before_expiresAt_counterexample:
  "cookie (fst (register empty_disk isEmail_shape normalizeEmail_default ''a@x.com'' ''Abc12345!''
                  ''Al'' ''digest'' ''u1'' ''r1'' 1997 1999 2003)) = SetRefresh session_token
   \<and> readable session_disk
   \<and> refreshTokens (content session_disk) = [session_record]
   \<and> rt_token session_record = session_token
   \<and> 604801500 < rt_expiresAt session_record
   \<and> fst (refresh session_disk (Some session_token) 604801500) =
       reply 403 (ErrorJson ''Invalid refresh token'') NoCookie"
  by (simp add: register_first session_disk_eq session_record_def session_token_def refresh_def
      codec_defs reply_def)

text \<open>
  Whatever refresh token a route has issued for a user, the access token a successful
  Refresh signs from it has the user's id and no email.
\<close>

lemma refresh_issued_without_email:
  assumes "refresh dk (Some (generateRefreshToken (refresh_payload u) t0)) now = (r, dk')"
    and "status r = 200"
  shows "body r = AccessTokenJson
                    (generateAccessToken \<lparr>p_userId = Some (u_id u), p_email = None\<rparr> now)"
  using assms
  by (auto simp: refresh_def reply_def refresh_payload_def codec_defs
      split: if_splits sum.splits option.splits)

text \<open>
  C2 fails on the Refresh path. Registration signs the access token over the user's id
  and email; Refresh signs it over the decoded refresh token, which carries no email, so
  the access token it returns for the same user has no \<open>email\<close> claim.
\<close>

theorem refresh_token_without_email:
  "fst (register empty_disk isEmail_shape normalizeEmail_default ''a@x.com'' ''Abc12345!'' ''Al''
          ''digest'' ''u1'' ''r1'' 1997 1999 2003) =
     reply 201
       (AuthJson ''User registered successfully'' (session_user\<lparr>u_password := None\<rparr>)
          (Jwt ACCESS_TOKEN_SECRET
             \<lparr>c_userId = Some ''u1'', c_email = Some ''a@x.com'', c_iat = 1, c_exp = 901,
              c_iss = ''secure-auth-app'', c_aud = ''secure-auth-client''\<rparr>))
       (SetRefresh session_token)
   \<and> fst (refresh session_disk (Some session_token) 5000) =
       reply 200
         (AccessTokenJson
            (Jwt ACCESS_TOKEN_SECRET
               \<lparr>c_userId = Some ''u1'', c_email = None, c_iat = 5, c_exp = 905,
                c_iss = ''secure-auth-app'', c_aud = ''secure-auth-client''\<rparr>))
         NoCookie"
  by (simp add: register_first session_disk_eq session_record_def session_token_def refresh_def
      codec_defs store_defs)

text \<open>
  What each route answers when the file cannot be read: 500 from the routes whose
  \<open>catch\<close> says so, 403 from Refresh.
\<close>

lemma storage_failure_is_500:
  assumes "\<not> readable dk"
  shows "registerValidation isEmail raw_email pw raw_name \<Longrightarrow>
         register dk isEmail normalizeEmail raw_email pw raw_name h user_id token_id t1 t2 t3 =
           (reply 500 (ErrorJson ''Registration failed'') NoCookie, dk)"
    and "login dk True e password compare token_id now =
           (reply 500 (ErrorJson ''Login failed'') NoCookie, dk)"
    and "truthy_token t \<Longrightarrow> logout dk (Some t) = (reply 500 (ErrorJson ''Logout failed'') NoCookie, dk)"
    and "logout_all dk usr = (reply 500 (ErrorJson ''Logout failed'') NoCookie, dk)"
  using assms
  by (simp_all add: register_def login_def logout_def logout_all_def store_defs Let_def)

lemma refresh_storage_failure:
  assumes "\<not> readable dk" and "truthy_token t"
  shows "refresh dk (Some t) now = (reply 403 (ErrorJson ''Invalid refresh token'') NoCookie, dk)"
  using assms by (simp add: refresh_def getRefreshToken_def readDB_def split: sum.splits)

text \<open>
  C3 fails on Refresh. With the file unreadable the store lookup throws, and the one
  \<open>catch\<close> of the route answers 403 "Invalid refresh token"; Logout, on the same disk,
  answers 500.
\<close>

theorem refresh_storage_failure_is_403:
  "getRefreshToken (session_disk\<lparr>readable := False\<rparr>) session_token 5000 = Inl StorageFailure
   \<and> fst (refresh (session_disk\<lparr>readable := False\<rparr>) (Some session_token) 5000) =
       reply 403 (ErrorJson ''Invalid refresh token'') NoCookie
   \<and> fst (logout (session_disk\<lparr>readable := False\<rparr>) (Some session_token)) =
       reply 500 (ErrorJson ''Logout failed'') NoCookie"
  by (simp add: session_disk_eq session_record_def session_token_def refresh_def logout_def
      codec_defs store_defs)

subsection \<open>The store invariant\<close>

text \<open>
  The empty database has it, and every route and strategy callback keeps it: the routes
  that issue a session save the token they signed for \<open>user.id\<close> under \<open>user.id\<close>,
  the others only remove records or leave them (Refresh leaves the whole disk).
\<close>

lemma owner_consistent_empty: "owner_consistent (content empty_disk)"
  by (simp add: owner_consistent_def empty_disk_def)

lemma token_owner_issued: "token_owner (generateRefreshToken (refresh_payload u) now) = Some (u_id u)"
  by (simp add: token_owner_def generateRefreshToken_def jwt_sign_def refresh_payload_def)

lemma saveRefreshToken_owner_consistent:
  assumes "owner_consistent (content dk)" and "token_owner t = Some uid"
    and "saveRefreshToken dk uid t token_id now = Inr (rt, dk')"
  shows "owner_consistent (content dk')"
  using assms
  by (auto simp: owner_consistent_def saveRefreshToken_def readDB_def writeDB_def Let_def
      split: if_splits)

lemma createUser_tokens:
  "createUser dk ud new_id now = Inr (u, dk') \<Longrightarrow>
   refreshTokens (content dk') = refreshTokens (content dk)"
  by (auto simp: createUser_def readDB_def writeDB_def Let_def split: if_splits)

lemma findOrCreateUser_tokens:
  "findOrCreateUser dk ud new_id now = Inr (u, dk') \<Longrightarrow>
   refreshTokens (content dk') = refreshTokens (content dk)"
  by (auto simp: findOrCreateUser_def readDB_def writeDB_def Let_def split: if_splits option.splits)

lemma owner_consistent_cong:
  "refreshTokens db' = refreshTokens db \<Longrightarrow> owner_consistent db' = owner_consistent db"
  by (simp add: owner_consistent_def)

lemma owner_consistent_filter:
  "owner_consistent db \<Longrightarrow> owner_consistent (db\<lparr>refreshTokens := filter P (refreshTokens db)\<rparr>)"
  by (simp add: owner_consistent_def)

lemma register_owner_consistent:
  assumes "owner_consistent (content dk)"
  shows "owner_consistent (content (snd (register dk isEmail normalizeEmail raw_email pw raw_name
           h user_id token_id t1 t2 t3)))"
proof -
  have "owner_consistent (content dk2)"
    if c: "createUser dk ud user_id t1 = Inr (u, dk1)"
      and s: "saveRefreshToken dk1 (u_id u) (generateRefreshToken (refresh_payload u) t2) token_id t3
                = Inr (rt, dk2)" for ud u dk1 rt dk2
    using saveRefreshToken_owner_consistent[OF _ token_owner_issued s]
      owner_consistent_cong[OF createUser_tokens[OF c]] assms by simp
  moreover have "owner_consistent (content dk1)"
    if c: "createUser dk ud user_id t1 = Inr (u, dk1)" for ud u dk1
    using owner_consistent_cong[OF createUser_tokens[OF c]] assms by simp
  ultimately show ?thesis
    using assms
    by (auto simp: register_def Let_def split: sum.splits option.splits)
qed

lemma login_owner_consistent:
  assumes "owner_consistent (content dk)"
  shows "owner_consistent (content (snd (login dk valid e password compare token_id now)))"
  using assms saveRefreshToken_owner_consistent[OF assms token_owner_issued]
  by (auto simp: login_def Let_def split: sum.splits option.splits)

lemma oauth_callback_owner_consistent:
  assumes "owner_consistent (content dk)"
  shows "owner_consistent (content (snd (oauth_callback dk usr token_id now)))"
  using assms saveRefreshToken_owner_consistent[OF assms token_owner_issued]
  by (auto simp: oauth_callback_def Let_def split: sum.splits)

lemma logout_owner_consistent:
  assumes "owner_consistent (content dk)"
  shows "owner_consistent (content (snd (logout dk c)))"
  using assms owner_consistent_filter[OF assms]
  by (auto simp: logout_def deleteRefreshToken_def readDB_def writeDB_def split: option.splits)

lemma logout_all_owner_consistent:
  assumes "owner_consistent (content dk)"
  shows "owner_consistent (content (snd (logout_all dk usr)))"
  using assms owner_consistent_filter[OF assms]
  by (auto simp: logout_all_def deleteUserRefreshTokens_def readDB_def writeDB_def)

lemma verify_owner_consistent:
  assumes "owner_consistent (content dk)"
  shows "google_verify dk pr new_id now = Inr (u, dk') \<Longrightarrow> owner_consistent (content dk')"
    and "github_verify dk pr new_id now = Inr (u, dk') \<Longrightarrow> owner_consistent (content dk')"
  using assms owner_consistent_cong[OF findOrCreateUser_tokens]
  by (auto simp: google_verify_def github_verify_def split: sum.splits)

subsection \<open>Logout\<close>

lemma find_filtered_out:
  "find (\<lambda>r. rt_token r = t \<and> Q r) (filter (\<lambda>r. rt_token r \<noteq> t) rts) = None"
  by (simp add: find_None_iff)

lemma refresh_store_miss:
  assumes "truthy_token t" and "readable dk" and "t \<notin> rt_token ` set (refreshTokens (content dk))"
  shows "refresh dk (Some t) now = (reply 403 (ErrorJson ''Invalid refresh token'') NoCookie, dk)"
proof -
  have "find (\<lambda>r. rt_token r = t \<and> now < rt_expiresAt r) (refreshTokens (content dk)) = None"
    using assms(3) by (auto simp: find_None_iff)
  then have "getRefreshToken dk t now = Inr None"
    using assms(2) by (simp add: getRefreshToken_def readDB_def)
  then show ?thesis
    using assms(1) by (simp add: refresh_def split: sum.splits)
qed

text \<open>
  C4. When a Logout that presented the token \<open>t\<close> has answered 200, no record of the
  store it leaves holds \<open>t\<close>, the lookup of \<open>t\<close> misses at every instant, and Refresh
  with \<open>t\<close> answers 403 "Invalid refresh token" (the one answer the route has for a
  store miss and for a codec failure).
\<close>

theorem logout_then_refresh_rejected:
  assumes "truthy_token t" and "logout dk (Some t) = (r, dk1)" and "status r = 200"
  shows "t \<notin> rt_token ` set (refreshTokens (content dk1))
       \<and> getRefreshToken dk1 t now = Inr None
       \<and> refresh dk1 (Some t) now = (reply 403 (ErrorJson ''Invalid refresh token'') NoCookie, dk1)"
proof -
  have ok: "readable dk \<and> writable dk"
    using assms by (auto simp: logout_def deleteRefreshToken_def readDB_def writeDB_def reply_def
        split: if_splits)
  then have dk1: "dk1 = dk\<lparr>content := (content dk)\<lparr>refreshTokens :=
                    filter (\<lambda>rt. rt_token rt \<noteq> t) (refreshTokens (content dk))\<rparr>\<rparr>"
    using assms by (simp add: logout_def deleteRefreshToken_def readDB_def writeDB_def)
  have absent: "t \<notin> rt_token ` set (refreshTokens (content dk1))"
    by (auto simp: dk1)
  have miss: "getRefreshToken dk1 t now = Inr None"
    using ok by (simp add: dk1 getRefreshToken_def readDB_def find_filtered_out)
  have "refresh dk1 (Some t) now = (reply 403 (ErrorJson ''Invalid refresh token'') NoCookie, dk1)"
    using assms(1) ok absent by (intro refresh_store_miss) (simp_all add: dk1)
  with absent miss show ?thesis by simp
qed

theorem logout_then_refresh_rejected_witness:
  "fst (refresh session_disk (Some session_token) 5000) =
     reply 200 (AccessTokenJson (generateAccessToken \<lparr>p_userId = Some ''u1'', p_email = None\<rparr> 5000)) NoCookie
   \<and> logout session_disk (Some session_token) =
       (reply 200 (MessageJson ''Logout successful'') ClearRefresh,
        session_disk\<lparr>content := \<lparr>users = [session_user], refreshTokens = []\<rparr>\<rparr>)
   \<and> refresh (session_disk\<lparr>content := \<lparr>users = [session_user], refreshTokens = []\<rparr>\<rparr>)
        (Some session_token) 5000 =
       (reply 403 (ErrorJson ''Invalid refresh token'') NoCookie,
        session_disk\<lparr>content := \<lparr>users = [session_user], refreshTokens = []\<rparr>\<rparr>)"
proof -
  have l: "logout session_disk (Some session_token) =
     (reply 200 (MessageJson ''Logout successful'') ClearRefresh,
      session_disk\<lparr>content := \<lparr>users = [session_user], refreshTokens = []\<rparr>\<rparr>)"
    by (simp add: logout_def session_disk_eq session_record_def session_token_def codec_defs
        store_defs)
  have t: "truthy_token session_token"
    by (simp add: session_token_def codec_defs)
  have s: "status (reply 200 (MessageJson ''Logout successful'') ClearRefresh) = 200"
    by (simp add: reply_def)
  have "fst (refresh session_disk (Some session_token) 5000) =
       reply 200 (AccessTokenJson (generateAccessToken \<lparr>p_userId = Some ''u1'', p_email = None\<rparr> 5000)) NoCookie"
    by (simp add: session_disk_eq session_record_def session_token_def refresh_def codec_defs
        store_defs)
  then show ?thesis
    using logout_then_refresh_rejected [OF t l s, of 5000] l by simp
qed

lemma register_second:
  "second_disk = \<lparr>content = \<lparr>users = [session_user, second_user],
                                refreshTokens = [session_record, second_record]\<rparr>,
                    readable = True, writable = True\<rparr>"
  by (simp add: second_disk_def session_disk_eq register_def valid_bodies normalizeEmail_plain
      trimmed_names store_defs access_payload_def refresh_payload_def session_user_def
      second_user_def second_record_def second_token_def Let_def)

lemma logout_all_ok:
  assumes "readable dk" and "writable dk"
  shows "logout_all dk usr =
           (reply 200 (MessageJson ''Logged out from all devices'') ClearRefresh,
            dk\<lparr>content := (content dk)\<lparr>refreshTokens :=
                 filter (\<lambda>rt. rt_userId rt \<noteq> u_id usr) (refreshTokens (content dk))\<rparr>\<rparr>)"
  using assms by (simp add: logout_all_def deleteUserRefreshTokens_def readDB_def writeDB_def)

text \<open>
  C5. On a working disk whose records are stored under the users their tokens name,
  LogoutAll for \<open>usr\<close> answers 200 and leaves exactly the records of the other users,
  in their order and unchanged, and the list of users as it was. Every record of
  \<open>usr\<close> is gone, and Refresh with its token answers 403 at every instant; every record
  of another user is still there.
\<close>

theorem logout_all_frame:
  assumes "readable dk" and "writable dk" and "owner_consistent (content dk)"
  shows "fst (logout_all dk usr) = reply 200 (MessageJson ''Logged out from all devices'') ClearRefresh
       \<and> refreshTokens (content (snd (logout_all dk usr))) =
           filter (\<lambda>rt. rt_userId rt \<noteq> u_id usr) (refreshTokens (content dk))
       \<and> users (content (snd (logout_all dk usr))) = users (content dk)
       \<and> (\<forall>rt \<in> set (refreshTokens (content dk)). rt_userId rt = u_id usr \<longrightarrow>
             rt \<notin> set (refreshTokens (content (snd (logout_all dk usr))))
           \<and> (\<forall>now. refresh (snd (logout_all dk usr)) (Some (rt_token rt)) now =
                 (reply 403 (ErrorJson ''Invalid refresh token'') NoCookie, snd (logout_all dk usr))))
       \<and> (\<forall>rt \<in> set (refreshTokens (content dk)). rt_userId rt \<noteq> u_id usr \<longrightarrow>
             rt \<in> set (refreshTokens (content (snd (logout_all dk usr)))))"
proof -
  let ?dk1 = "snd (logout_all dk usr)"
  note res = logout_all_ok[OF assms(1,2), of usr]
  have rts: "refreshTokens (content ?dk1) =
               filter (\<lambda>rt. rt_userId rt \<noteq> u_id usr) (refreshTokens (content dk))"
    by (simp add: res)
  have rejected: "refresh ?dk1 (Some (rt_token rt)) now =
                    (reply 403 (ErrorJson ''Invalid refresh token'') NoCookie, ?dk1)"
    if rt: "rt \<in> set (refreshTokens (content dk))" and own: "rt_userId rt = u_id usr" for rt now
  proof (rule refresh_store_miss)
    have o: "token_owner (rt_token rt) = Some (u_id usr)"
      using assms(3) rt own by (simp add: owner_consistent_def)
    then show "truthy_token (rt_token rt)"
      by (cases "rt_token rt") (simp_all add: truthy_token_def token_owner_def)
    show "readable ?dk1"
      using assms(1) by (simp add: res)
    show "rt_token rt \<notin> rt_token ` set (refreshTokens (content ?dk1))"
    proof
      assume "rt_token rt \<in> rt_token ` set (refreshTokens (content ?dk1))"
      then obtain r where r: "r \<in> set (refreshTokens (content dk))" "rt_userId r \<noteq> u_id usr"
        "rt_token r = rt_token rt"
        by (auto simp: rts)
      then have "token_owner (rt_token r) = Some (rt_userId r)"
        using assms(3) unfolding owner_consistent_def by blast
      with o r show False by simp
    qed
  qed
  show ?thesis
    using rejected by (simp add: res)
qed

theorem logout_all_frame_witness:
  "refreshTokens (content second_disk) = [session_record, second_record]
   \<and> refreshTokens (content (snd (logout_all second_disk session_user))) = [second_record]
   \<and> users (content (snd (logout_all second_disk session_user))) = [session_user, second_user]
   \<and> fst (refresh (snd (logout_all second_disk session_user)) (Some session_token) 5000) =
       reply 403 (ErrorJson ''Invalid refresh token'') NoCookie
   \<and> fst (refresh (snd (logout_all second_disk session_user)) (Some second_token) 5000) =
       reply 200 (AccessTokenJson (generateAccessToken \<lparr>p_userId = Some ''u2'', p_email = None\<rparr> 5000)) NoCookie"
proof -
  have inv: "owner_consistent (content second_disk)"
    by (simp add: register_second owner_consistent_def token_owner_def session_record_def
        second_record_def session_token_def second_token_def codec_defs)
  have r: "readable second_disk" and w: "writable second_disk"
    by (simp_all add: register_second)
  have own: "session_record \<in> set (refreshTokens (content second_disk))
             \<and> rt_userId session_record = u_id session_user
             \<and> rt_token session_record = session_token"
    by (simp add: register_second session_record_def session_user_def)
  have la: "snd (logout_all second_disk session_user) =
              second_disk\<lparr>content := \<lparr>users = [session_user, second_user],
                                         refreshTokens = [second_record]\<rparr>\<rparr>"
    unfolding logout_all_ok[OF r w]
    by (simp add: register_second session_record_def second_record_def session_user_def)
  have other: "refresh (snd (logout_all second_disk session_user)) (Some second_token) 5000 =
       (reply 200 (AccessTokenJson (generateAccessToken \<lparr>p_userId = Some ''u2'', p_email = None\<rparr> 5000)) NoCookie,
        snd (logout_all second_disk session_user))"
    unfolding second_token_def la
    by (rule refresh_once[where rt = second_record])
       (simp_all add: register_second second_record_def second_token_def)
  have kept: "filter (\<lambda>rt. rt_userId rt \<noteq> u_id session_user) (refreshTokens (content second_disk)) =
                [second_record]"
    by (simp add: register_second session_record_def second_record_def session_user_def)
  show ?thesis
    using logout_all_frame [OF r w inv, of session_user] own other kept
    by (auto simp: register_second)
qed

subsection \<open>Identity resolution\<close>

lemma replace_first_length: "length (replace_first P y xs) = length xs"
  by (induction xs) simp_all


lemma oauth_update_fields:
  "u_id (oauth_update u ud now) = u_id u"
  "u_email (oauth_update u ud now) = u_email u"
  "u_password (oauth_update u ud now) = u_password u"
  "u_name (oauth_update u ud now) = u_name u"
  "u_provider (oauth_update u ud now) = u_provider u"
  "u_isVerified (oauth_update u ud now) = u_isVerified u"
  "u_createdAt (oauth_update u ud now) = u_createdAt u"
  "u_updatedAt (oauth_update u ud now) = now"
  "u_googleId (oauth_update u ud now) = (if truthy (d_googleId ud) then d_googleId ud else u_googleId u)"
  "u_githubId (oauth_update u ud now) = (if truthy (d_githubId ud) then d_githubId ud else u_githubId u)"
  "u_avatar (oauth_update u ud now) = (if truthy (d_avatar ud) then d_avatar ud else u_avatar u)"
  by (simp_all add: oauth_update_def Let_def)

lemma findOrCreateUser_existing:
  assumes "readable dk" and "writable dk"
    and "find (\<lambda>x. u_email x = d_email ud) (users (content dk)) = Some u"
  shows "findOrCreateUser dk ud new_id now =
           Inr (oauth_update u ud now,
                dk\<lparr>content := (content dk)\<lparr>users :=
                     replace_first (\<lambda>x. u_email x = d_email ud) (oauth_update u ud now)
                       (users (content dk))\<rparr>\<rparr>)"
  using assms by (simp add: findOrCreateUser_def readDB_def writeDB_def Let_def)


lemma find_SomeD: "find P xs = Some x \<Longrightarrow> P x"
  by (induction xs) (auto split: if_splits)

lemma find_replace_first:
  "find P xs = Some x \<Longrightarrow> P y \<Longrightarrow> find P (replace_first P y xs) = Some y"
  by (induction xs) (auto split: if_splits)

lemma filter_replace_first:
  "P y \<Longrightarrow> filter (\<lambda>z. \<not> P z) (replace_first P y xs) = filter (\<lambda>z. \<not> P z) xs"
  by (induction xs) auto

text \<open>
  C6. On a working disk, when the email of an external identity is that of a stored
  user \<open>u\<close> (the first with it), resolving the identity through Google returns that
  user, same id, with \<open>updatedAt\<close> at the clock, \<open>googleId\<close> set to the external id
  when that is non-empty, \<open>avatar\<close> set to the one supplied when there is one, and
  \<open>provider\<close>, \<open>name\<close>, \<open>githubId\<close>, email and password as they were. The store
  holds the returned record in the place of \<open>u\<close>: it is now the first user with that
  email, the users with another email are as they were, the list of users keeps its
  length, and no refresh token is touched. Resolving the identity through GitHub does
  the same with \<open>githubId\<close> and leaves \<open>googleId\<close>.
\<close>

theorem resolveExternal_existing:
  assumes "readable dk" and "writable dk"
    and "find (\<lambda>x. u_email x = email) (users (content dk)) = Some u"
  shows "(\<exists>u' dk'. findOrCreateUser dk (google_userData external_id email name avatar) new_id now
                      = Inr (u', dk')
            \<and> u_id u' = u_id u \<and> u_updatedAt u' = now
            \<and> u_googleId u' = (if external_id \<noteq> [] then Some external_id else u_googleId u)
            \<and> u_avatar u' = (if truthy avatar then avatar else u_avatar u)
            \<and> u_provider u' = u_provider u \<and> u_name u' = u_name u
            \<and> u_githubId u' = u_githubId u
            \<and> u_email u' = u_email u \<and> u_password u' = u_password u
            \<and> find (\<lambda>x. u_email x = email) (users (content dk')) = Some u'
            \<and> filter (\<lambda>x. u_email x \<noteq> email) (users (content dk')) =
                filter (\<lambda>x. u_email x \<noteq> email) (users (content dk))
            \<and> users (content dk') = replace_first (\<lambda>x. u_email x = email) u' (users (content dk))
            \<and> length (users (content dk')) = length (users (content dk))
            \<and> refreshTokens (content dk') = refreshTokens (content dk))
       \<and> (\<exists>u' dk'. findOrCreateUser dk (github_userData external_id email name avatar) new_id now
                      = Inr (u', dk')
            \<and> u_id u' = u_id u \<and> u_updatedAt u' = now
            \<and> u_githubId u' = (if external_id \<noteq> [] then Some external_id else u_githubId u)
            \<and> u_avatar u' = (if truthy avatar then avatar else u_avatar u)
            \<and> u_provider u' = u_provider u \<and> u_name u' = u_name u
            \<and> u_googleId u' = u_googleId u
            \<and> u_email u' = u_email u \<and> u_password u' = u_password u
            \<and> find (\<lambda>x. u_email x = email) (users (content dk')) = Some u'
            \<and> filter (\<lambda>x. u_email x \<noteq> email) (users (content dk')) =
                filter (\<lambda>x. u_email x \<noteq> email) (users (content dk))
            \<and> users (content dk') = replace_first (\<lambda>x. u_email x = email) u' (users (content dk))
            \<and> length (users (content dk')) = length (users (content dk))
            \<and> refreshTokens (content dk') = refreshTokens (content dk))"
proof -
  have google: "find (\<lambda>x. u_email x = d_email (google_userData external_id email name avatar))
                  (users (content dk)) = Some u"
    using assms(3) by (simp add: google_userData_def)
  have github: "find (\<lambda>x. u_email x = d_email (github_userData external_id email name avatar))
                  (users (content dk)) = Some u"
    using assms(3) by (simp add: github_userData_def)
  have same: "u_email (oauth_update u ud now) = email" for ud
    using find_SomeD[OF assms(3)] by (simp add: oauth_update_fields)
  have stored: "find (\<lambda>x. u_email x = email)
                  (replace_first (\<lambda>x. u_email x = email) (oauth_update u ud now) (users (content dk)))
                = Some (oauth_update u ud now)" for ud
    using assms(3) same by (rule find_replace_first)
  have others: "filter (\<lambda>x. u_email x \<noteq> email)
                  (replace_first (\<lambda>x. u_email x = email) (oauth_update u ud now) (users (content dk)))
                = filter (\<lambda>x. u_email x \<noteq> email) (users (content dk))" for ud
    using same by (rule filter_replace_first)
  show ?thesis
    unfolding findOrCreateUser_existing[OF assms(1,2) google]
      findOrCreateUser_existing[OF assms(1,2) github]
    by (simp add: oauth_update_fields replace_first_length truthy_def google_userData_def
        github_userData_def stored others)
qed

theorem resolveExternal_existing_witness:
  "(\<exists>u' dk'. google_verify session_disk linked_profile ''u9'' 7000 = Inr (u', dk')
      \<and> u_id u' = ''u1'' \<and> u_updatedAt u' = 7000 \<and> u_googleId u' = Some ''g-1''
      \<and> u_avatar u' = Some ''http://p'' \<and> u_provider u' = Local \<and> u_name u' = Some ''Al''
      \<and> u_githubId u' = None \<and> users (content dk') = [u'])
   \<and> (\<exists>u' dk'. github_verify session_disk linked_profile ''u9'' 7000 = Inr (u', dk')
      \<and> u_id u' = ''u1'' \<and> u_updatedAt u' = 7000 \<and> u_githubId u' = Some ''g-1''
      \<and> u_avatar u' = Some ''http://p'' \<and> u_provider u' = Local \<and> u_name u' = Some ''Al''
      \<and> u_googleId u' = None \<and> users (content dk') = [u'])"
proof -
  have r: "readable session_disk" and w: "writable session_disk"
    by (simp_all add: session_disk_eq)
  have f: "find (\<lambda>x. u_email x = ''a@x.com'') (users (content session_disk)) = Some session_user"
    by (simp add: session_disk_eq session_user_def)
  have google: "google_verify session_disk linked_profile ''u9'' 7000 =
                  findOrCreateUser session_disk
                    (google_userData ''g-1'' ''a@x.com'' (Some ''Alice G'') (Some ''http://p''))
                    ''u9'' 7000"
    by (simp add: google_verify_def first_value_def linked_profile_def)
  have github: "github_verify session_disk linked_profile ''u9'' 7000 =
                  findOrCreateUser session_disk
                    (github_userData ''g-1'' ''a@x.com'' (Some ''Alice G'') (Some ''http://p''))
                    ''u9'' 7000"
    by (simp add: github_verify_def first_value_def linked_profile_def github_email_def
        github_name_def first_value_opt_def truthy_def)
  note t = resolveExternal_existing [OF r w f, of "''g-1''" "Some ''Alice G''" "Some ''http://p''"
      "''u9''" 7000]
  from t obtain u1 dk1 where
    "findOrCreateUser session_disk
       (google_userData ''g-1'' ''a@x.com'' (Some ''Alice G'') (Some ''http://p'')) ''u9'' 7000
       = Inr (u1, dk1)
     \<and> u_id u1 = ''u1'' \<and> u_updatedAt u1 = 7000 \<and> u_googleId u1 = Some ''g-1''
     \<and> u_avatar u1 = Some ''http://p'' \<and> u_provider u1 = Local \<and> u_name u1 = Some ''Al''
     \<and> u_githubId u1 = None \<and> users (content dk1) = [u1]"
    by (auto simp: session_user_def session_disk_eq truthy_def)
  moreover from t obtain u2 dk2 where
    "findOrCreateUser session_disk
       (github_userData ''g-1'' ''a@x.com'' (Some ''Alice G'') (Some ''http://p'')) ''u9'' 7000
       = Inr (u2, dk2)
     \<and> u_id u2 = ''u1'' \<and> u_updatedAt u2 = 7000 \<and> u_githubId u2 = Some ''g-1''
     \<and> u_avatar u2 = Some ''http://p'' \<and> u_provider u2 = Local \<and> u_name u2 = Some ''Al''
     \<and> u_googleId u2 = None \<and> users (content dk2) = [u2]"
    by (auto simp: session_user_def session_disk_eq truthy_def)
  ultimately show ?thesis
    unfolding google github by blast
qed

lemma login_rejects:
  assumes "readable dk"
  shows "fst (login dk True email password compare token_id now) =
            reply 401 (ErrorJson ''Invalid credentials'') NoCookie
         \<longleftrightarrow> (case find (\<lambda>u. u_email u = email) (users (content dk)) of
                None \<Rightarrow> True
              | Some usr \<Rightarrow> \<not> truthy (u_password usr) \<or> \<not> compare password (the (u_password usr)))"
  using assms
  by (simp add: login_def getUserByEmail_def saveRefreshToken_def readDB_def writeDB_def reply_def
      Let_def split: option.splits)

lemma login_rejects_unchanged:
  "fst (login dk True email password compare token_id now) =
      reply 401 (ErrorJson ''Invalid credentials'') NoCookie \<Longrightarrow>
   login dk True email password compare token_id now =
      (reply 401 (ErrorJson ''Invalid credentials'') NoCookie, dk)"
  by (auto simp: login_def getUserByEmail_def saveRefreshToken_def readDB_def writeDB_def reply_def
      Let_def split: option.splits if_splits)

lemma login_accepts:
  assumes "readable dk" and "writable dk"
    and "find (\<lambda>u. u_email u = email) (users (content dk)) = Some usr"
    and "truthy (u_password usr)" and "compare password (the (u_password usr))"
  shows "login dk True email password compare token_id now =
           (reply 200
              (AuthJson ''Login successful'' (usr\<lparr>u_password := None\<rparr>)
                 (generateAccessToken (access_payload usr) now))
              (SetRefresh (generateRefreshToken (refresh_payload usr) now)),
            dk\<lparr>content := (content dk)\<lparr>refreshTokens := refreshTokens (content dk) @
                 [\<lparr>rt_id = token_id, rt_userId = u_id usr,
                   rt_token = generateRefreshToken (refresh_payload usr) now,
                   rt_createdAt = now, rt_expiresAt = now + 7 * 24 * 60 * 60 * 1000\<rparr>]\<rparr>\<rparr>)"
  using assms
  by (simp add: login_def getUserByEmail_def saveRefreshToken_def readDB_def writeDB_def Let_def)

text \<open>
  C7. On a readable disk a validated Login answers 401 "Invalid credentials" exactly
  when no user has the email, or the user found has no (or an empty) password digest,
  or \<open>bcrypt.compare\<close> refuses the password; whichever it was, the answer and the
  disk are the same. When the digest matches (and the disk can be written) Login
  answers 200 with that user, the digest stripped, and a new token pair.
\<close>

theorem login_invalid_credentials:
  assumes "readable dk"
  shows "(fst (login dk True email password compare token_id now) =
            reply 401 (ErrorJson ''Invalid credentials'') NoCookie
          \<longleftrightarrow> (case find (\<lambda>u. u_email u = email) (users (content dk)) of
                None \<Rightarrow> True
              | Some usr \<Rightarrow> \<not> truthy (u_password usr) \<or> \<not> compare password (the (u_password usr))))
       \<and> (fst (login dk True email password compare token_id now) =
            reply 401 (ErrorJson ''Invalid credentials'') NoCookie \<longrightarrow>
          login dk True email password compare token_id now =
            (reply 401 (ErrorJson ''Invalid credentials'') NoCookie, dk))
       \<and> (\<forall>usr. writable dk \<and> find (\<lambda>u. u_email u = email) (users (content dk)) = Some usr
             \<and> truthy (u_password usr) \<and> compare password (the (u_password usr)) \<longrightarrow>
           login dk True email password compare token_id now =
             (reply 200
                (AuthJson ''Login successful'' (usr\<lparr>u_password := None\<rparr>)
                   (generateAccessToken (access_payload usr) now))
                (SetRefresh (generateRefreshToken (refresh_payload usr) now)),
              dk\<lparr>content := (content dk)\<lparr>refreshTokens := refreshTokens (content dk) @
                   [\<lparr>rt_id = token_id, rt_userId = u_id usr,
                     rt_token = generateRefreshToken (refresh_payload usr) now,
                     rt_createdAt = now, rt_expiresAt = now + 7 * 24 * 60 * 60 * 1000\<rparr>]\<rparr>\<rparr>))"
  using login_rejects[OF assms] login_rejects_unchanged login_accepts[OF assms]
  by blast

lemma github_first:
  "github_verify session_disk hidden_profile ''u3'' 3000 =
     Inr (octocat, \<lparr>content = \<lparr>users = [session_user, octocat], refreshTokens = [session_record]\<rparr>,
                    readable = True, writable = True\<rparr>)"
  by (simp add: github_verify_def github_userData_def first_value_def hidden_profile_def github_email_def
      github_name_def first_value_opt_def truthy_def template_def session_disk_eq
      findOrCreateUser_def readDB_def writeDB_def new_user_def session_user_def octocat_def Let_def)

lemma github_disk_eq:
  "github_disk = \<lparr>content = \<lparr>users = [session_user, octocat], refreshTokens = [session_record]\<rparr>,
                   readable = True, writable = True\<rparr>"
  by (simp add: github_disk_def github_first)

theorem login_invalid_credentials_witness:
  "fst (login github_disk True ''nobody@x.com'' ''pw'' digest_of_pw ''r9'' 9000) =
     reply 401 (ErrorJson ''Invalid credentials'') NoCookie
   \<and> fst (login github_disk True ''octocat@github.local'' ''pw'' digest_of_pw ''r9'' 9000) =
     reply 401 (ErrorJson ''Invalid credentials'') NoCookie
   \<and> fst (login github_disk True ''a@x.com'' ''guess'' digest_of_pw ''r9'' 9000) =
     reply 401 (ErrorJson ''Invalid credentials'') NoCookie
   \<and> fst (login github_disk True ''a@x.com'' ''pw'' digest_of_pw ''r9'' 9000) =
     reply 200
       (AuthJson ''Login successful'' (session_user\<lparr>u_password := None\<rparr>)
          (generateAccessToken (access_payload session_user) 9000))
       (SetRefresh (generateRefreshToken (refresh_payload session_user) 9000))"
proof -
  have r: "readable github_disk"
    by (simp add: github_disk_eq)
  have "fst (login github_disk True ''nobody@x.com'' ''pw'' digest_of_pw ''r9'' 9000) =
          reply 401 (ErrorJson ''Invalid credentials'') NoCookie"
    using login_invalid_credentials [OF r, of "''nobody@x.com''" "''pw''" digest_of_pw "''r9''" 9000]
    by (simp add: github_disk_eq session_user_def octocat_def)
  moreover have "fst (login github_disk True ''octocat@github.local'' ''pw'' digest_of_pw ''r9'' 9000) =
          reply 401 (ErrorJson ''Invalid credentials'') NoCookie"
    using login_invalid_credentials [OF r, of "''octocat@github.local''" "''pw''" digest_of_pw "''r9''" 9000]
    by (simp add: github_disk_eq session_user_def octocat_def truthy_def)
  moreover have "fst (login github_disk True ''a@x.com'' ''guess'' digest_of_pw ''r9'' 9000) =
          reply 401 (ErrorJson ''Invalid credentials'') NoCookie"
    using login_invalid_credentials [OF r, of "''a@x.com''" "''guess''" digest_of_pw "''r9''" 9000]
    by (simp add: github_disk_eq session_user_def octocat_def truthy_def digest_of_pw_def)
  moreover have "fst (login github_disk True ''a@x.com'' ''pw'' digest_of_pw ''r9'' 9000) =
     reply 200
       (AuthJson ''Login successful'' (session_user\<lparr>u_password := None\<rparr>)
          (generateAccessToken (access_payload session_user) 9000))
       (SetRefresh (generateRefreshToken (refresh_payload session_user) 9000))"
    using login_invalid_credentials [OF r, of "''a@x.com''" "''pw''" digest_of_pw "''r9''" 9000]
    by (simp add: github_disk_eq session_user_def octocat_def truthy_def digest_of_pw_def)
  ultimately show ?thesis by simp
qed

subsection \<open>Registration and the uniqueness of emails\<close>


















subsection \<open>GitHub profiles without an email\<close>







subsection \<open>The client session agent\<close>

text \<open>
  Fuel only cuts a call short: a call that settles with some fuel settles the same way
  with more.
\<close>

lemma send_more_fuel:
  "send n srv a s rq = Some r \<Longrightarrow> send (Suc n) srv a s rq = Some r"
proof (induction n arbitrary: a s rq r)
  case 0
  then show ?case by simp
next
  case (Suc n)
  obtain out s1 where srv: "srv s (attach a rq) = (out, s1)"
    by (cases "srv s (attach a rq)")
  show ?case
  proof (cases "\<exists>d. out = Http 401 d \<and> \<not> retry (attach a rq)")
    case False
    with Suc.prems srv show ?thesis
      by (cases out) (auto simp: Let_def split: if_splits)
  next
    case True
    then obtain d where out: "out = Http 401 d" and unmarked: "\<not> retry (attach a rq)"
      by blast
    from Suc.prems srv out unmarked obtain r1 where
      inner: "send n srv a s1 refresh_request = Some r1"
      by (auto simp: Let_def split: option.splits)
    then have inner': "send (Suc n) srv a s1 refresh_request = Some r1"
      by (rule Suc.IH)
    obtain st1 a2 s2 where r1: "r1 = (st1, a2, s2)"
      by (cases r1)
    show ?thesis
    proof (cases st1)
      case (Resolved st2 data2)
      with Suc.prems srv out unmarked inner r1
      have "send n srv (a2\<lparr>held := data2, stored := Some data2\<rparr>) s2
              ((attach a rq)\<lparr>retry := True, authorization := data2\<rparr>) = Some r"
        by (simp add: Let_def)
      then have "send (Suc n) srv (a2\<lparr>held := data2, stored := Some data2\<rparr>) s2
              ((attach a rq)\<lparr>retry := True, authorization := data2\<rparr>) = Some r"
        by (rule Suc.IH)
      with srv out unmarked inner' r1 Resolved show ?thesis
        unfolding send.simps(2)[of "Suc n"] by (simp add: Let_def)
    next
      case (Rejected e)
      with Suc.prems srv out unmarked inner r1
      have "r = (Rejected e, a2\<lparr>held := None, stored := None, location := Some ''/login''\<rparr>, s2)"
        by (simp add: Let_def)
      with srv out unmarked inner' r1 Rejected show ?thesis
        unfolding send.simps(2)[of "Suc n"] by (simp add: Let_def)
    qed
  qed
qed

text \<open>
  A request that carries the mark goes to the transport once and settles with its
  answer. When the refresh call is answered 200 with a token, the agent holds and
  stores that token and replays the request once, marked and with the new token; when
  the refresh call is answered with a failure other than 401, the agent drops its
  token and goes to the login page.
\<close>

lemma send_marked:
  "retry rq \<Longrightarrow>
   send (Suc n) srv a s rq =
     (case srv s (attach a rq) of
        (NetworkError, s1) \<Rightarrow> Some (Rejected NetworkError, a, s1)
      | (Http st d, s1) \<Rightarrow>
          Some (if 200 \<le> st \<and> st < 300 then Resolved st d else Rejected (Http st d), a, s1))"
  by (auto simp: Let_def attach_def split: prod.splits outcome.splits)

lemma send_refresh_resolved:
  assumes "\<not> retry rq" and "truthy_token t"
    and "srv s (attach a rq) = (Http 401 d, s1)"
    and "srv s1 (attach a refresh_request) = (Http 200 (Some t), s2)"
  shows "send (Suc (Suc n)) srv a s rq =
           (case srv s2 (rq\<lparr>retry := True, authorization := Some t\<rparr>) of
              (NetworkError, s3) \<Rightarrow>
                Some (Rejected NetworkError, a\<lparr>held := Some t, stored := Some (Some t)\<rparr>, s3)
            | (Http st d', s3) \<Rightarrow>
                Some (if 200 \<le> st \<and> st < 300 then Resolved st d' else Rejected (Http st d'),
                      a\<lparr>held := Some t, stored := Some (Some t)\<rparr>, s3))"
proof -
  have unmarked: "\<not> retry (attach a rq)"
    using assms(1) by (simp add: attach_def)
  have inner: "send (Suc n) srv a s1 refresh_request = Some (Resolved 200 (Some t), a, s2)"
    using assms(4) by (simp add: Let_def)
  have replayed: "attach (a\<lparr>held := Some t, stored := Some (Some t)\<rparr>)
                    ((attach a rq)\<lparr>retry := True, authorization := Some t\<rparr>) =
                  rq\<lparr>retry := True, authorization := Some t\<rparr>"
    using assms(2) by (simp add: attach_def held_truthy_def)
  have marked: "retry ((attach a rq)\<lparr>retry := True, authorization := Some t\<rparr>)"
    by simp
  show ?thesis
    unfolding send.simps(2)[of "Suc n"] Let_def assms(3)
    using unmarked inner send_marked[OF marked, of n srv "a\<lparr>held := Some t, stored := Some (Some t)\<rparr>" s2]
    by (simp add: replayed)
qed

lemma send_refresh_rejected:
  assumes "\<not> retry rq" and "st \<noteq> 401" and "\<not> (200 \<le> st \<and> st < 300)"
    and "srv s (attach a rq) = (Http 401 d, s1)"
    and "srv s1 (attach a refresh_request) = (Http st d', s2)"
  shows "send (Suc (Suc n)) srv a s rq =
           Some (Rejected (Http st d'),
                 a\<lparr>held := None, stored := None, location := Some ''/login''\<rparr>, s2)"
proof -
  have unmarked: "\<not> retry (attach a rq)"
    using assms(1) by (simp add: attach_def)
  have inner: "send (Suc n) srv a s1 refresh_request = Some (Rejected (Http st d'), a, s2)"
    using assms(2,3,5) by (simp add: Let_def)
  show ?thesis
    unfolding send.simps(2)[of "Suc n"] Let_def assms(4)
    using unmarked inner by simp
qed

text \<open>
  C9 fails when the refresh call itself is answered 401. The call \<open>refreshToken()\<close>
  goes through the same response interceptor, and its config is new, so it is not
  marked: a 401 to it starts another refresh, and so on. Against a transport that
  answers 401 throughout, the profile request of a client with a stale token does not
  settle with any amount of fuel: the refresh never fails, the token is never cleared
  and the client is never sent to the login page.
\<close>

theorem refresh_401_never_settles:
  "send n always_401 stale_agent 0 profile_request = None"
proof -
  have diverges: "send n always_401 a s rq = None" if "\<not> retry rq" for a s rq
    using that
  proof (induction n arbitrary: a s rq)
    case 0
    show ?case by simp
  next
    case (Suc n)
    have answer: "always_401 s (attach a rq) = (Http 401 None, Suc s)"
      by (simp add: always_401_def)
    have unmarked: "\<not> retry (attach a rq)"
      using Suc.prems by (simp add: attach_def)
    have "send n always_401 a (Suc s) refresh_request = None"
      by (rule Suc.IH) (simp add: refresh_request_def)
    with answer unmarked show ?case
      by (simp add: Let_def)
  qed
  show ?thesis
    by (rule diverges) (simp add: profile_request_def)
qed

text \<open>
  When only the first refresh call is answered 401, the one profile request makes three
  requests to \<open>/auth/refresh\<close> before it is replayed.
\<close>

lemma send_refresh_401_once:
  "send 4 refresh_401_once stale_agent [] profile_request =
     Some (Resolved 200 None,
           \<lparr>held = Some (Opaque ''fresh''), stored = Some (Some (Opaque ''fresh'')), location = None\<rparr>,
           [profile_request\<lparr>authorization := Some (Opaque ''stale'')\<rparr>,
            refresh_request\<lparr>authorization := Some (Opaque ''stale'')\<rparr>,
            refresh_request\<lparr>authorization := Some (Opaque ''stale'')\<rparr>,
            refresh_request\<lparr>authorization := Some (Opaque ''fresh''), retry := True\<rparr>,
            profile_request\<lparr>authorization := Some (Opaque ''fresh''), retry := True\<rparr>])"
  by (simp add: numeral_eq_Suc refresh_401_once_def stale_agent_def profile_request_def attach_def
      held_truthy_def truthy_token_def refresh_request_def API_BASE_URL_def Let_def)

end
